theory Spec2Isabelle
  imports Main
begin

section \<open>Go values\<close>

text \<open>
  A Go \<^verbatim>\<open>string\<close> is a sequence of bytes: it is modelled as \<^typ>\<open>string\<close>, a list of
  8-bit characters, and \<open>byte c\<close> is the numeric value of one of them.  A call of a Go
  function either returns, panics, or does not return at all.
\<close>

datatype 'a outcome = Returns 'a | Panics | Diverges

datatype error =
    errInvalidScheme
  | errNoHostname
  | errMalformedDomain
  | errIllegalDomain
  | errInvalidDomain
  | errSplitHostPort

definition byte :: "char \<Rightarrow> nat" where
  "byte c = of_char c"

text \<open>
  \<^verbatim>\<open>time.Time\<close> is modelled by the instant it denotes, counted in nanoseconds from the
  zero time (January 1, year 1, 00:00:00 UTC), so that the zero value of the Go type is
  \<open>0\<close>.
\<close>

type_synonym time = int

definition IsZero :: "time \<Rightarrow> bool" where
  "IsZero t = (t = 0)"

definition After :: "time \<Rightarrow> time \<Rightarrow> bool" where
  "After t u = (u < t)"

subsection \<open>32-bit signed arithmetic\<close>

text \<open>
  The encoder computes on \<^verbatim>\<open>int32\<close>.  Values are integers, \<open>i32\<close> is the wrap-around
  applied after every addition, subtraction and multiplication, and \<open>quo\<close> and
  \<open>remainder\<close> are Go's \<^verbatim>\<open>/\<close> and \<^verbatim>\<open>%\<close>, which truncate towards zero.
\<close>

definition i32 :: "int \<Rightarrow> int" where
  "i32 x = (x + 2147483648) mod 4294967296 - 2147483648"

definition quo :: "int \<Rightarrow> int \<Rightarrow> int" where
  "quo a b = sgn a * sgn b * (\<bar>a\<bar> div \<bar>b\<bar>)"

definition remainder :: "int \<Rightarrow> int \<Rightarrow> int" where
  "remainder a b = a - b * quo a b"

subsection \<open>Library functions on strings\<close>

text \<open>
  The functions of package \<^verbatim>\<open>strings\<close> that the repository calls, for the separators it
  calls them with.
\<close>

fun IndexByte :: "string \<Rightarrow> char \<Rightarrow> int" where
  "IndexByte [] c = - 1"
| "IndexByte (x # xs) c =
     (if x = c then 0 else (let i = IndexByte xs c in if i < 0 then - 1 else i + 1))"

definition LastIndex :: "string \<Rightarrow> char \<Rightarrow> int" where
  "LastIndex s c = (let i = IndexByte (rev s) c in if i < 0 then - 1 else int (length s) - 1 - i)"

definition HasPrefix :: "string \<Rightarrow> string \<Rightarrow> bool" where
  "HasPrefix s p = (length p \<le> length s \<and> take (length p) s = p)"

fun Split :: "string \<Rightarrow> char \<Rightarrow> string list" where
  "Split [] sep = [[]]"
| "Split (c # cs) sep =
     (if c = sep then [] # Split cs sep
      else (case Split cs sep of [] \<Rightarrow> [[c]] | l # ls \<Rightarrow> (c # l) # ls))"

fun Join :: "string list \<Rightarrow> string \<Rightarrow> string" where
  "Join [] sep = []"
| "Join [l] sep = l"
| "Join (l # ls) sep = l @ sep @ Join ls sep"

text \<open>
  Iterating over a string with \<^verbatim>\<open>range\<close> decodes UTF-8: each step yields the index of the
  first byte of a code point and the code point; a byte that starts no well-formed
  encoding yields \<open>0xFFFD\<close> and advances by one byte.
\<close>

definition RuneError :: int where
  "RuneError = 65533"

definition inRange :: "nat \<Rightarrow> nat \<Rightarrow> nat \<Rightarrow> bool" where
  "inRange lo hi b = (lo \<le> b \<and> b \<le> hi)"

definition decodeRune :: "nat list \<Rightarrow> int \<times> nat" where
  "decodeRune bs =
     (case bs of
        [] \<Rightarrow> (RuneError, 0)
      | b0 # r \<Rightarrow>
          if b0 < 128 then (int b0, 1)
          else if inRange 194 223 b0 then
            (case r of
               b1 # _ \<Rightarrow>
                 if inRange 128 191 b1 then (int ((b0 - 192) * 64 + (b1 - 128)), 2)
                 else (RuneError, 1)
             | _ \<Rightarrow> (RuneError, 1))
          else if inRange 224 239 b0 then
            (case r of
               b1 # b2 # _ \<Rightarrow>
                 if inRange (if b0 = 224 then 160 else 128) (if b0 = 237 then 159 else 191) b1
                    \<and> inRange 128 191 b2
                 then (int ((b0 - 224) * 4096 + (b1 - 128) * 64 + (b2 - 128)), 3)
                 else (RuneError, 1)
             | _ \<Rightarrow> (RuneError, 1))
          else if inRange 240 244 b0 then
            (case r of
               b1 # b2 # b3 # _ \<Rightarrow>
                 if inRange (if b0 = 240 then 144 else 128) (if b0 = 244 then 143 else 191) b1
                    \<and> inRange 128 191 b2 \<and> inRange 128 191 b3
                 then (int ((b0 - 240) * 262144 + (b1 - 128) * 4096 + (b2 - 128) * 64
                            + (b3 - 128)), 4)
                 else (RuneError, 1)
             | _ \<Rightarrow> (RuneError, 1))
          else (RuneError, 1))"

fun rangeFrom :: "nat \<Rightarrow> nat list \<Rightarrow> (nat \<times> int) list" where
  "rangeFrom i [] = []"
| "rangeFrom i (b # bs) =
     (let (r, w) = decodeRune (b # bs) in (i, r) # rangeFrom (i + w) (drop (w - 1) bs))"

definition rangeString :: "string \<Rightarrow> (nat \<times> int) list" where
  "rangeString s = rangeFrom 0 (map byte s)"

definition runes :: "string \<Rightarrow> int list" where
  "runes s = map snd (rangeString s)"

section \<open>Punycode encoder\<close>

definition base :: int where "base = 36"
definition damp :: int where "damp = 700"
definition skew :: int where "skew = 38"
definition tmax :: int where "tmax = 26"
definition tmin :: int where "tmin = 1"
definition initialBias :: int where "initialBias = 72"
definition initialN :: int where "initialN = 128"

definition isASCII :: "string \<Rightarrow> bool" where
  "isASCII s = list_all (\<lambda>c. byte c < 128) s"

text \<open>The loop of \<^verbatim>\<open>adapt\<close>, on the pair \<open>(delta, k)\<close>.\<close>

function adapt_loop :: "int \<Rightarrow> int \<Rightarrow> int \<times> int" where
  "adapt_loop delta k =
     (if delta > quo (i32 ((base - tmin) * tmax)) 2
      then adapt_loop (quo delta (base - tmin)) (i32 (k + base))
      else (delta, k))"
  by pat_completeness auto
termination
proof (relation "measure (\<lambda>(delta, k). nat delta)")
  show "wf (measure (\<lambda>(delta, k). nat delta))"
    by simp
next
  fix delta k :: int
  assume "quo (i32 ((base - tmin) * tmax)) 2 < delta"
  then have pos: "455 < delta"
    by (simp add: quo_def i32_def base_def tmin_def tmax_def)
  then have "quo delta (base - tmin) = delta div 35"
    by (simp add: quo_def base_def tmin_def)
  with pos show "((quo delta (base - tmin), i32 (k + base)), (delta, k))
      \<in> measure (\<lambda>(delta, k). nat delta)"
    by simp
qed

text \<open>
  \<^verbatim>\<open>adapt\<close> divides by \<open>points\<close> and by \<open>delta + skew\<close>; an integer division by zero
  panics.
\<close>

definition adapt :: "int \<Rightarrow> int \<Rightarrow> bool \<Rightarrow> int outcome" where
  "adapt delta points first =
     (let delta1 = (if first then quo delta damp else quo delta 2) in
      if points = 0 then Panics
      else
        (let delta2 = i32 (delta1 + quo delta1 points) in
         (case adapt_loop delta2 0 of
            (delta3, k) \<Rightarrow>
              if i32 (delta3 + skew) = 0 then Panics
              else Returns (i32 (k + quo (i32 ((base - tmin + 1) * delta3))
                                       (i32 (delta3 + skew)))))))"

definition clamp :: "int \<Rightarrow> int" where
  "clamp t = (if t < tmin then tmin else if t > tmax then tmax else t)"

definition digitByte :: "int \<Rightarrow> char" where
  "digitByte digit = (if digit < 26 then char_of (97 + digit) else char_of (48 - 26 + digit))"

lemma clamp_bounds: "1 \<le> clamp t \<and> clamp t \<le> 26"
  by (simp add: clamp_def tmin_def tmax_def)

lemma i32_le: "0 \<le> x \<Longrightarrow> i32 x \<le> x"
proof -
  assume "0 \<le> x"
  then have "(x + 2147483648) mod 4294967296 \<le> x + 2147483648"
    by (intro zmod_le_nonneg_dividend) simp
  then show ?thesis
    by (simp add: i32_def)
qed

lemma quo_nonneg: "0 \<le> x \<Longrightarrow> 0 < c \<Longrightarrow> quo x c = x div c"
  unfolding quo_def by (cases "x = 0") (simp_all add: sgn_if)

lemma quo_neg: "x < 0 \<Longrightarrow> 0 < c \<Longrightarrow> quo x c = - (\<bar>x\<bar> div c)"
  unfolding quo_def by (simp add: sgn_if)

lemma quo_le: "0 < c \<Longrightarrow> quo x c \<le> max 0 x"
proof (cases "0 \<le> x")
  case True
  assume c: "0 < c"
  from True c have "x div c \<le> x"
    using zdiv_mono2 [of x 1 c] by simp
  with True c show ?thesis
    by (simp add: quo_nonneg)
next
  case False
  assume c: "0 < c"
  then have "0 \<le> \<bar>x\<bar> div c"
    by (simp add: pos_imp_zdiv_nonneg_iff)
  with False c show ?thesis
    by (simp add: quo_neg)
qed

text \<open>
  The inner \<^verbatim>\<open>for\<close> loop of \<^verbatim>\<open>encode\<close>, which writes the digits of \<open>q\<close>; the divisor
  \<open>base - t\<close> lies between 10 and 35, since \<open>t\<close> has just been clamped.
\<close>

function digits :: "int \<Rightarrow> int \<Rightarrow> int \<Rightarrow> string \<Rightarrow> int \<times> string" where
  "digits q k bias buf =
     (let t = clamp (i32 (k - bias)) in
      if q < t then (q, buf)
      else digits (quo (i32 (q - t)) (i32 (base - t))) (i32 (k + base)) bias
             (buf @ [digitByte (i32 (t + remainder (i32 (q - t)) (i32 (base - t))))]))"
  by pat_completeness auto
termination
proof (relation "measure (\<lambda>(q, k, bias, buf). nat q)")
  show "wf (measure (\<lambda>(q, k, bias, buf). nat q))"
    by simp
next
  fix q k bias :: int and buf :: string and t :: int
  assume t: "t = clamp (i32 (k - bias))" and cont: "\<not> q < t"
  from t clamp_bounds have tb: "1 \<le> t" "t \<le> 26"
    by simp_all
  then have div: "i32 (base - t) = 36 - t"
    by (simp add: i32_def base_def)
  from tb cont have "i32 (q - t) \<le> q - t"
    by (intro i32_le) simp
  moreover from tb div have "quo (i32 (q - t)) (i32 (base - t)) \<le> max 0 (i32 (q - t))"
    by (intro quo_le) simp
  ultimately have "quo (i32 (q - t)) (i32 (base - t)) < q"
    using tb cont by simp
  with tb cont show "((quo (i32 (q - t)) (i32 (base - t)), i32 (k + base), bias,
        buf @ [digitByte (i32 (t + remainder (i32 (q - t)) (i32 (base - t))))]),
       (q, k, bias, buf)) \<in> measure (\<lambda>(q, k, bias, buf). nat q)"
    by simp
qed

text \<open>
  One pass over the code points of the label (the third \<^verbatim>\<open>range\<close> loop of
  \<^verbatim>\<open>encode\<close>), on the variables \<open>bias\<close>, \<open>d\<close>, \<open>h\<close>, \<open>rem\<close> and \<open>buf\<close>.
\<close>

fun encode_pass ::
  "int list \<Rightarrow> int \<Rightarrow> int \<Rightarrow> int \<Rightarrow> int \<Rightarrow> int \<Rightarrow> int \<Rightarrow> string
    \<Rightarrow> (error + (int \<times> int \<times> int \<times> int \<times> string)) outcome" where
  "encode_pass [] b n bias d h rem buf = Returns (Inr (bias, d, h, rem, buf))"
| "encode_pass (r # rs) b n bias d h rem buf =
     (if r < n then
        (let d1 = i32 (d + 1) in
         if d1 < 0 then Returns (Inl errInvalidDomain)
         else encode_pass rs b n bias d1 h rem buf)
      else if r > n then encode_pass rs b n bias d h rem buf
      else
        (case digits d base bias buf of
           (q, buf1) \<Rightarrow>
             (case adapt d (i32 (h + 1)) (h = b) of
                Returns bias1 \<Rightarrow>
                  encode_pass rs b n bias1 0 (i32 (h + 1)) (rem - 1) (buf1 @ [digitByte q])
              | Panics \<Rightarrow> Panics
              | Diverges \<Rightarrow> Diverges)))"

definition minRune :: "int list \<Rightarrow> int \<Rightarrow> int" where
  "minRune rs n = fold (\<lambda>r m. if m > r \<and> r \<ge> n then r else m) rs 2147483647"

text \<open>
  The loop \<^verbatim>\<open>for rem > 0\<close>.  Nothing in its body bounds the number of iterations from
  an arbitrary state, so it is a partial function: \<open>None\<close> means that the loop does not
  return.
\<close>

partial_function (option) encode_loop ::
  "int list \<Rightarrow> int \<Rightarrow> int \<Rightarrow> int \<Rightarrow> int \<Rightarrow> int \<Rightarrow> int \<Rightarrow> string
    \<Rightarrow> (error + string) outcome option" where
  "encode_loop rs b bias n d h rem buf =
     (if rem > 0 then
        (let m = minRune rs n;
             d1 = i32 (d + i32 (i32 (m - n) * i32 (h + 1)))
         in if d1 < 0 then Some (Returns (Inl errInvalidDomain))
            else
              (case encode_pass rs b m bias d1 h rem buf of
                 Returns (Inr st) \<Rightarrow>
                   encode_loop rs b (fst st) (i32 (m + 1)) (i32 (fst (snd st) + 1))
                     (fst (snd (snd st))) (fst (snd (snd (snd st)))) (snd (snd (snd (snd st))))
               | Returns (Inl e) \<Rightarrow> Some (Returns (Inl e))
               | Panics \<Rightarrow> Some Panics
               | Diverges \<Rightarrow> Some Diverges))
      else Some (Returns (Inr buf)))"

declare encode_loop.simps [code]

text \<open>
  \<^verbatim>\<open>encode\<close>: the prefix, the basic code points (counted in \<open>b\<close>, the others in
  \<open>rem\<close>), the separator, then the loop.
\<close>

definition encode :: "string \<Rightarrow> string \<Rightarrow> (error + string) outcome" where
  "encode s buf =
     (let rs = runes s;
          buf1 = buf @ ''xn--'';
          b = fold (\<lambda>r b. if r < 128 then i32 (b + 1) else b) rs 0;
          buf2 = buf1 @ map char_of (filter (\<lambda>r. r < 128) rs);
          rem = int (length (filter (\<lambda>r. \<not> r < 128) rs));
          buf3 = (if b > 0 then buf2 @ ''-'' else buf2)
      in case encode_loop rs b initialBias initialN 0 b rem buf3 of
           None \<Rightarrow> Diverges
         | Some r \<Rightarrow> r)"

text \<open>\<^verbatim>\<open>toASCII\<close>; the loop over the labels stops at the first label that fails.\<close>

fun toASCII_labels :: "string list \<Rightarrow> (error + string list) outcome" where
  "toASCII_labels [] = Returns (Inr [])"
| "toASCII_labels (l # ls) =
     (case (if isASCII l then Returns (Inr l) else encode l []) of
        Returns (Inr l1) \<Rightarrow>
          (case toASCII_labels ls of
             Returns (Inr ls1) \<Rightarrow> Returns (Inr (l1 # ls1))
           | Returns (Inl e) \<Rightarrow> Returns (Inl e)
           | Panics \<Rightarrow> Panics
           | Diverges \<Rightarrow> Diverges)
      | Returns (Inl e) \<Rightarrow> Returns (Inl e)
      | Panics \<Rightarrow> Panics
      | Diverges \<Rightarrow> Diverges)"

definition toASCII :: "string \<Rightarrow> (error + string) outcome" where
  "toASCII domain =
     (if isASCII domain then Returns (Inr domain)
      else
        (case toASCII_labels (Split domain CHR ''.'') of
           Returns (Inr labels) \<Rightarrow> Returns (Inr (Join labels ''.''))
         | Returns (Inl e) \<Rightarrow> Returns (Inl e)
         | Panics \<Rightarrow> Panics
         | Diverges \<Rightarrow> Diverges))"

section \<open>The standard library\<close>

text \<open>
  The jar calls four functions of Go's standard library whose code is not part of the
  repository.  They are parameters of the model, so that every theorem below holds
  whatever these functions compute:
  \<^item> \<open>ParseIP s\<close> is \<^verbatim>\<open>net.ParseIP(s) != nil\<close>;
  \<^item> \<open>SplitHostPort s\<close> is the host returned by \<^verbatim>\<open>net.SplitHostPort(s)\<close>, or \<open>None\<close> when
    it returns an error;
  \<^item> \<open>ToLowerUnicode s\<close> is \<^verbatim>\<open>strings.ToLower(s)\<close> for a string with a byte outside ASCII
    (on ASCII strings \<^verbatim>\<open>strings.ToLower\<close> is written out below);
  \<^item> \<open>AddSeconds t n\<close> is \<^verbatim>\<open>t.Add(time.Duration(n) * time.Second)\<close>.
\<close>

record platform =
  ParseIP :: "string \<Rightarrow> bool"
  SplitHostPort :: "string \<Rightarrow> string option"
  ToLowerUnicode :: "string \<Rightarrow> string"
  AddSeconds :: "time \<Rightarrow> int \<Rightarrow> time"

definition lowerByte :: "char \<Rightarrow> char" where
  "lowerByte c = (if 65 \<le> byte c \<and> byte c \<le> 90 then char_of (byte c + 32) else c)"

definition ToLower :: "platform \<Rightarrow> string \<Rightarrow> string" where
  "ToLower pf s = (if isASCII s then map lowerByte s else ToLowerUnicode pf s)"

section \<open>Hosts and domains\<close>

definition isIP :: "platform \<Rightarrow> string \<Rightarrow> bool" where
  "isIP pf host = ParseIP pf host"

text \<open>
  \<^verbatim>\<open>hasPort\<close>: the loop reads \<^verbatim>\<open>addr[i-1]\<close> at every colon, which is out of range when
  the colon is the first byte.
\<close>

fun hasPort_loop :: "string \<Rightarrow> (nat \<times> int) list \<Rightarrow> nat \<Rightarrow> bool \<Rightarrow> (nat \<times> bool) outcome" where
  "hasPort_loop addr [] colons rbrack = Returns (colons, rbrack)"
| "hasPort_loop addr ((i, c) # rest) colons rbrack =
     (if c = 58 then
        (if i = 0 then Panics
         else hasPort_loop addr rest (colons + 1) (addr ! (i - 1) = CHR '']''))
      else hasPort_loop addr rest colons rbrack)"

definition hasPort :: "string \<Rightarrow> bool outcome" where
  "hasPort addr =
     (if length addr = 0 then Returns False
      else
        (case hasPort_loop addr (rangeString addr) 0 False of
           Returns (colons, rbrack) \<Rightarrow>
             Returns (if colons = 0 then False
                      else if colons = 1 then True
                      else addr ! 0 = CHR ''['' \<and> rbrack)
         | Panics \<Rightarrow> Panics
         | Diverges \<Rightarrow> Diverges))"

definition hasDotSuffix :: "string \<Rightarrow> string \<Rightarrow> bool" where
  "hasDotSuffix s suffix =
     (length s > length suffix
      \<and> s ! (length s - length suffix - 1) = CHR ''.''
      \<and> drop (length s - length suffix) s = suffix)"

definition canonicalHost :: "platform \<Rightarrow> string \<Rightarrow> (error + string) outcome" where
  "canonicalHost pf host =
     (let host1 = ToLower pf host in
      case hasPort host1 of
        Returns True \<Rightarrow>
          (case SplitHostPort pf host1 of
             None \<Rightarrow> Returns (Inl errSplitHostPort)
           | Some host2 \<Rightarrow> toASCII host2)
      | Returns False \<Rightarrow> toASCII host1
      | Panics \<Rightarrow> Panics
      | Diverges \<Rightarrow> Diverges)"

text \<open>
  The public suffix list is an interface value: \<open>None\<close> is \<^verbatim>\<open>nil\<close>, \<open>Some f\<close> an
  implementation whose method \<^verbatim>\<open>PublicSuffix\<close> computes \<open>f\<close>.
\<close>

type_synonym PublicSuffixList = "(string \<Rightarrow> string) option"

definition domainRoot :: "platform \<Rightarrow> string \<Rightarrow> PublicSuffixList \<Rightarrow> string" where
  "domainRoot pf host psl =
     (if isIP pf host then host
      else
        (case psl of
           None \<Rightarrow> []
         | Some f \<Rightarrow>
             (let suffix = f host in
              if suffix = host then host
              else
                (let i = int (length host) - int (length suffix) in
                 if i > 0 \<and> host ! nat (i - 1) = CHR ''.''
                 then drop (nat (LastIndex (take (nat (i - 1)) host) CHR ''.'' + 1)) host
                 else []))))"

definition validateDomain ::
  "platform \<Rightarrow> string \<Rightarrow> string \<Rightarrow> PublicSuffixList \<Rightarrow> error + (string \<times> bool)" where
  "validateDomain pf host domain psl =
     (if domain = [] then Inr (host, True)
      else if isIP pf host then Inl errNoHostname
      else
        (let domain1 = (if hd domain = CHR ''.'' then tl domain else domain) in
         if domain1 = [] \<or> hd domain1 = CHR ''.'' \<or> last domain1 = CHR ''.''
         then Inl errMalformedDomain
         else
           (let domain2 = ToLower pf domain1 in
            case psl of
              None \<Rightarrow> Inr (domain2, False)
            | Some f \<Rightarrow>
                (let suffix = f domain2 in
                 if suffix \<noteq> [] \<and> \<not> hasDotSuffix domain2 suffix then
                   (if host = domain2 then Inr (host, True) else Inl errIllegalDomain)
                 else if host \<noteq> domain2 \<and> \<not> hasDotSuffix host domain2
                 then Inl errIllegalDomain
                 else Inr (domain2, False)))))"

section \<open>Cookies and jar entries\<close>

text \<open>
  The fields of \<^verbatim>\<open>Cookie\<close> carry the prefix \<open>c\<close> and those of \<^verbatim>\<open>jarEntry\<close> the prefix
  \<open>e\<close>, since the two structs share field names.
\<close>

record Cookie =
  cName :: string
  cValue :: string
  cDomain :: string
  cPath :: string
  cExpires :: time
  cSecure :: bool
  cHttpOnly :: bool
  cMaxAge :: int
  cUnparsed :: "string list"

record jarEntry =
  eRoot :: string
  eKey :: string
  eCreated :: time
  eExpires :: time
  eHostOnly :: bool
  eName :: string
  eValue :: string
  eDomain :: string
  ePath :: string
  eSecure :: bool
  eHttpOnly :: bool

text \<open>The cookie with the given \<open>Name\<close>, \<open>Value\<close>, \<open>Domain\<close> and \<open>Path\<close>, every other field zero.\<close>

definition cookie :: "string \<Rightarrow> string \<Rightarrow> string \<Rightarrow> string \<Rightarrow> Cookie" where
  "cookie n v d p =
     \<lparr> cName = n, cValue = v, cDomain = d, cPath = p, cExpires = 0, cSecure = False,
       cHttpOnly = False, cMaxAge = 0, cUnparsed = [] \<rparr>"

text \<open>
  \<^verbatim>\<open>newEntry\<close> returns the entry and the flag \<open>remove\<close>.  The two returns with
  \<open>remove = true\<close> come before the assignments to \<open>Root\<close> and \<open>Key\<close>.
\<close>

definition newEntry ::
  "Cookie \<Rightarrow> platform \<Rightarrow> string \<Rightarrow> PublicSuffixList \<Rightarrow> time \<Rightarrow> error + (jarEntry \<times> bool)" where
  "newEntry c pf host psl now =
     (let entry = \<lparr> eRoot = [], eKey = [], eCreated = now, eExpires = 0, eHostOnly = False,
                     eName = cName c, eValue = cValue c, eDomain = [], ePath = [],
                     eSecure = cSecure c, eHttpOnly = cHttpOnly c \<rparr>
      in case validateDomain pf host (cDomain c) psl of
           Inl err \<Rightarrow> Inl err
         | Inr (domain, hostOnly) \<Rightarrow>
             (let entry1 = entry \<lparr> eDomain := domain, eHostOnly := hostOnly \<rparr>;
                  entry2 = (if cPath c = [] \<or> hd (cPath c) \<noteq> CHR ''/''
                            then entry1 \<lparr> ePath := ''/'' \<rparr>
                            else entry1 \<lparr> ePath := cPath c \<rparr>);
                  finish = (\<lambda>entry3.
                    Inr (entry3 \<lparr> eRoot := domainRoot pf host psl,
                                    eKey := eDomain entry3 @ '';'' @ ePath entry3 @ '';''
                                            @ eName entry3 \<rparr>, False))
              in if cMaxAge c < 0 then Inr (entry2, True)
                 else if cMaxAge c > 0
                 then finish (entry2 \<lparr> eExpires := AddSeconds pf now (cMaxAge c) \<rparr>)
                 else if \<not> IsZero (cExpires c) then
                   (if After (cExpires c) now
                    then finish (entry2 \<lparr> eExpires := cExpires c \<rparr>)
                    else Inr (entry2, True))
                 else finish entry2))"

text \<open>
  \<^verbatim>\<open>shouldSend\<close>.  The index \<^verbatim>\<open>len(entry.Path)-1\<close> is out of range for an empty
  \<open>Path\<close>; \<^verbatim>\<open>path[len(entry.Path)]\<close> is read only when \<open>path\<close> extends \<open>Path\<close>.
\<close>

definition shouldSend :: "jarEntry \<Rightarrow> string \<Rightarrow> string \<Rightarrow> string \<Rightarrow> bool outcome" where
  "shouldSend entry scheme host path =
     (if eSecure entry \<and> scheme \<noteq> ''https'' then Returns False
      else if eDomain entry \<noteq> host \<and> (eHostOnly entry \<or> \<not> hasDotSuffix host (eDomain entry))
      then Returns False
      else if path \<noteq> ePath entry then
        (if \<not> HasPrefix path (ePath entry) then Returns False
         else if ePath entry = [] then Panics
         else if last (ePath entry) \<noteq> CHR ''/'' then
           (if length path \<le> length (ePath entry) then Panics
            else if path ! length (ePath entry) \<noteq> CHR ''/'' then Returns False
            else Returns True)
         else Returns True)
      else Returns True)"

text \<open>
  The test that \<^verbatim>\<open>shouldSend\<close> applies to a request path that differs from \<open>Path\<close>.
\<close>

definition pathMatch :: "string \<Rightarrow> string \<Rightarrow> bool" where
  "pathMatch path p =
     (HasPrefix path p \<and> (last p = CHR ''/'' \<or> path ! length p = CHR ''/''))"

section \<open>The jar\<close>

text \<open>
  The field \<open>ent\<close> maps a root to its bucket, and a bucket maps a key to its entry.  A
  bucket is a Go map that the methods update in place; here every update of a bucket is
  written back into \<open>ent\<close>.
\<close>

type_synonym bucket = "string \<rightharpoonup> jarEntry"

record Jar =
  psl :: PublicSuffixList
  ent :: "string \<rightharpoonup> bucket"

definition NewJar :: "PublicSuffixList \<Rightarrow> Jar" where
  "NewJar p = \<lparr> psl = p, ent = Map.empty \<rparr>"

definition set_entry :: "Jar \<Rightarrow> jarEntry \<Rightarrow> Jar" where
  "set_entry j entry =
     (let bucket = (case ent j (eRoot entry) of None \<Rightarrow> Map.empty | Some b \<Rightarrow> b)
      in j \<lparr> ent := (ent j)(eRoot entry \<mapsto> bucket(eKey entry \<mapsto> entry)) \<rparr>)"

definition remove_entry :: "Jar \<Rightarrow> jarEntry \<Rightarrow> Jar" where
  "remove_entry j entry =
     (case ent j (eRoot entry) of
        None \<Rightarrow> j
      | Some b \<Rightarrow>
          (let bucket = b(eKey entry := None) in
           if dom bucket = {} then j \<lparr> ent := (ent j)(eRoot entry := None) \<rparr>
           else j \<lparr> ent := (ent j)(eRoot entry \<mapsto> bucket) \<rparr>))"

definition SetCookie ::
  "Jar \<Rightarrow> platform \<Rightarrow> string \<Rightarrow> string \<Rightarrow> string \<Rightarrow> Cookie \<Rightarrow> time
    \<Rightarrow> (error option \<times> Jar) outcome" where
  "SetCookie j pf scheme host path c now =
     (if scheme \<noteq> ''http'' \<and> scheme \<noteq> ''https'' then Returns (Some errInvalidScheme, j)
      else
        (case canonicalHost pf host of
           Returns (Inl err) \<Rightarrow> Returns (Some err, j)
         | Returns (Inr host1) \<Rightarrow>
             (case newEntry c pf host1 (psl j) now of
                Inl err \<Rightarrow> Returns (Some err, j)
              | Inr (entry, rm) \<Rightarrow>
                  if rm then Returns (None, remove_entry j entry)
                  else Returns (None, set_entry j entry))
         | Panics \<Rightarrow> Panics
         | Diverges \<Rightarrow> Diverges))"

text \<open>
  The cookie that \<^verbatim>\<open>Cookies\<close> builds for an entry: \<open>Name\<close> and \<open>Value\<close>, every other
  field zero.
\<close>

definition cookieOf :: "jarEntry \<Rightarrow> Cookie" where
  "cookieOf entry =
     \<lparr> cName = eName entry, cValue = eValue entry, cDomain = [], cPath = [], cExpires = 0,
       cSecure = False, cHttpOnly = False, cMaxAge = 0, cUnparsed = [] \<rparr>"

definition expired :: "jarEntry \<Rightarrow> time \<Rightarrow> bool" where
  "expired entry now = (\<not> IsZero (eExpires entry) \<and> \<not> After (eExpires entry) now)"

text \<open>
  The loop of \<^verbatim>\<open>Cookies\<close> over the bucket.  Go enumerates a map in an order of its own
  choice: the list \<open>ks\<close> is that order, the keys of the bucket as the runtime visits
  them.  A key whose entry was deleted before the loop reaches it is not visited.  The
  body has two statements, one after the other: the deletion of an expired entry, then
  the test \<^verbatim>\<open>shouldSend\<close> and the \<^verbatim>\<open>append\<close>.
\<close>

fun Cookies_loop ::
  "string list \<Rightarrow> bucket \<Rightarrow> string \<Rightarrow> string \<Rightarrow> string \<Rightarrow> time \<Rightarrow> Cookie list
    \<Rightarrow> (bucket \<times> Cookie list) outcome" where
  "Cookies_loop [] bucket scheme host path now cookies = Returns (bucket, cookies)"
| "Cookies_loop (k # ks) bucket scheme host path now cookies =
     (case bucket k of
        None \<Rightarrow> Cookies_loop ks bucket scheme host path now cookies
      | Some entry \<Rightarrow>
          (let bucket1 =
                 (if expired entry now
                  then bucket(eDomain entry @ '';'' @ ePath entry @ '';'' @ eName entry := None)
                  else bucket)
           in case shouldSend entry scheme host path of
                Returns send \<Rightarrow>
                  Cookies_loop ks bucket1 scheme host path now
                    (if send then cookies @ [cookieOf entry] else cookies)
              | Panics \<Rightarrow> Panics
              | Diverges \<Rightarrow> Diverges))"

definition Cookies ::
  "Jar \<Rightarrow> platform \<Rightarrow> string list \<Rightarrow> string \<Rightarrow> string \<Rightarrow> string \<Rightarrow> time
    \<Rightarrow> ((error + Cookie list) \<times> Jar) outcome" where
  "Cookies j pf ks scheme host path now =
     (if scheme \<noteq> ''http'' \<and> scheme \<noteq> ''https'' then Returns (Inl errInvalidScheme, j)
      else
        (case canonicalHost pf host of
           Returns (Inl err) \<Rightarrow> Returns (Inl err, j)
         | Returns (Inr host1) \<Rightarrow>
             (let root = domainRoot pf host1 (psl j);
                  bucket = (case ent j root of None \<Rightarrow> Map.empty | Some b \<Rightarrow> b)
              in case Cookies_loop ks bucket scheme host1 path now [] of
                   Returns (bucket1, cookies) \<Rightarrow>
                     Returns (Inr cookies,
                       (if dom bucket1 = {} then j \<lparr> ent := (ent j)(root := None) \<rparr>
                        else j \<lparr> ent := (ent j)(root \<mapsto> bucket1) \<rparr>))
                 | Panics \<Rightarrow> Panics
                 | Diverges \<Rightarrow> Diverges)
         | Panics \<Rightarrow> Panics
         | Diverges \<Rightarrow> Diverges))"

section \<open>The codec\<close>

text \<open>
  \<^verbatim>\<open>Parse\<close> builds its errors with \<^verbatim>\<open>fmt.Errorf\<close>; there is one constructor for each
  message, with the value that the message quotes.
\<close>

datatype parseError =
    errMissingValue
  | errInvalidName
  | errInvalidValue
  | errInvalidDomainValue string
  | errInvalidExpiresValue string
  | errInvalidMaxAgeValue string

text \<open>
  The table \<^verbatim>\<open>chars\<close> has one element of type \<^verbatim>\<open>uint8\<close> for each byte, and the bits
  \<^verbatim>\<open>nameChar\<close>, \<^verbatim>\<open>valueChar\<close> and \<^verbatim>\<open>attrChar\<close> are \<^verbatim>\<open>1 << iota\<close>.  \<^verbatim>\<open>init\<close> fills the
  table in a loop over the bytes from \<open>0x20\<close> to \<open>0x7e\<close>, and every other element stays
  zero; \<open>chars c\<close> is the element for the byte \<open>c\<close> once \<^verbatim>\<open>init\<close> has run.
\<close>

definition nameChar :: nat where "nameChar = 1"
definition valueChar :: nat where "valueChar = 2"
definition attrChar :: nat where "attrChar = 4"

definition chars :: "char \<Rightarrow> nat" where
  "chars c =
     (if 32 \<le> byte c \<and> byte c < 127 then
        or (or (if c \<noteq> CHR ''('' \<and> c \<noteq> CHR '')'' \<and> c \<noteq> CHR ''<'' \<and> c \<noteq> CHR ''>''
                    \<and> c \<noteq> CHR ''@'' \<and> c \<noteq> CHR '','' \<and> c \<noteq> CHR '';'' \<and> c \<noteq> CHR '':''
                    \<and> c \<noteq> CHR 0x5C \<and> c \<noteq> CHR 0x22 \<and> c \<noteq> CHR ''/'' \<and> c \<noteq> CHR ''[''
                    \<and> c \<noteq> CHR '']'' \<and> c \<noteq> CHR ''?'' \<and> c \<noteq> CHR ''='' \<and> c \<noteq> CHR ''{''
                    \<and> c \<noteq> CHR ''}'' \<and> c \<noteq> CHR '' '' \<and> c \<noteq> CHR 0x09
                then nameChar else 0)
               (if c \<noteq> CHR 0x22 \<and> c \<noteq> CHR '';'' \<and> c \<noteq> CHR 0x5C then valueChar else 0))
           (if c \<noteq> CHR '';'' then attrChar else 0)
      else 0)"

definition hasBit :: "nat \<Rightarrow> nat \<Rightarrow> bool" where
  "hasBit x m = (and x m \<noteq> 0)"

text \<open>
  Two more functions of the standard library, called by \<^verbatim>\<open>parseAttr\<close>:
  \<open>ParseTime layout s\<close> is the time that \<^verbatim>\<open>time.Parse(layout, s)\<close> returns, or \<open>None\<close>
  when it returns an error, and \<open>Atoi s\<close> is the same for \<^verbatim>\<open>strconv.Atoi(s)\<close>.
\<close>

record codecLib =
  ParseTime :: "string \<Rightarrow> string \<Rightarrow> time option"
  Atoi :: "string \<Rightarrow> int option"

text \<open>
  \<^verbatim>\<open>trim\<close>: the two loops on the indices \<open>l\<close> and \<open>r\<close>, then the slice
  \<^verbatim>\<open>s[l : r+1]\<close>.
\<close>

definition blank :: "char \<Rightarrow> bool" where
  "blank c = (c = CHR '' '' \<or> c = CHR 0x09)"

function trimLeft :: "string \<Rightarrow> int \<Rightarrow> int \<Rightarrow> int" where
  "trimLeft s l r = (if l \<le> r \<and> blank (s ! nat l) then trimLeft s (l + 1) r else l)"
  by pat_completeness auto
termination
  by (relation "measure (\<lambda>(s, l, r). nat (r + 1 - l))") auto

function trimRight :: "string \<Rightarrow> int \<Rightarrow> int \<Rightarrow> int" where
  "trimRight s l r = (if r > l \<and> blank (s ! nat r) then trimRight s l (r - 1) else r)"
  by pat_completeness auto
termination
  by (relation "measure (\<lambda>(s, l, r). nat (r - l))") auto

definition trim :: "string \<Rightarrow> string" where
  "trim s =
     (let l = trimLeft s 0 (int (length s) - 1);
          r = trimRight s l (int (length s) - 1)
      in take (nat (r + 1 - l)) (drop (nat l) s))"

definition isValidName :: "string \<Rightarrow> bool" where
  "isValidName s = (length s \<noteq> 0 \<and> list_all (\<lambda>c. hasBit (chars c) nameChar) s)"

definition isValidValue :: "string \<Rightarrow> bool" where
  "isValidValue s = (length s \<noteq> 0 \<and> list_all (\<lambda>c. hasBit (chars c) valueChar) s)"

definition isValidAttr :: "string \<Rightarrow> bool" where
  "isValidAttr s = (length s \<noteq> 0 \<and> list_all (\<lambda>c. hasBit (chars c) attrChar) s)"

definition parseName :: "string \<Rightarrow> string \<times> bool" where
  "parseName raw = (if \<not> isValidName raw then ([], False) else (raw, True))"

definition parseValue :: "string \<Rightarrow> string \<times> bool" where
  "parseValue raw =
     (let raw1 = (if length raw \<ge> 2 \<and> raw ! 0 = CHR 0x22 \<and> raw ! (length raw - 1) = CHR 0x22
                  then take (length raw - 2) (drop 1 raw) else raw)
      in if \<not> isValidValue raw1 then ([], False) else (raw1, True))"

text \<open>
  The loop of \<^verbatim>\<open>isDomainName\<close> on \<open>prev\<close>, \<open>ok\<close> and \<open>n\<close>; \<open>None\<close> is a
  \<^verbatim>\<open>return false\<close> from inside the loop.
\<close>

fun isDomainName_loop :: "string \<Rightarrow> char \<Rightarrow> bool \<Rightarrow> nat \<Rightarrow> (char \<times> bool \<times> nat) option" where
  "isDomainName_loop [] prev ok n = Some (prev, ok, n)"
| "isDomainName_loop (c # cs) prev ok n =
     (if (97 \<le> byte c \<and> byte c \<le> 122) \<or> (65 \<le> byte c \<and> byte c \<le> 90)
      then isDomainName_loop cs c True (n + 1)
      else if 48 \<le> byte c \<and> byte c \<le> 57 then isDomainName_loop cs c ok (n + 1)
      else if c = CHR ''-'' then
        (if prev = CHR ''.'' then None else isDomainName_loop cs c ok (n + 1))
      else if c = CHR ''.'' then
        (if prev = CHR ''.'' \<or> prev = CHR ''-'' then None
         else if n > 63 \<or> n = 0 then None
         else isDomainName_loop cs c ok 0)
      else None)"

definition isDomainName :: "string \<Rightarrow> bool" where
  "isDomainName s =
     (if length s = 0 \<or> length s > 255 then False
      else
        (case isDomainName_loop (if s ! 0 = CHR ''.'' then drop 1 s else s) CHR ''.'' False 0 of
           None \<Rightarrow> False
         | Some (prev, ok, n) \<Rightarrow> if prev = CHR ''-'' \<or> n > 63 then False else ok))"

definition isValidDomain :: "platform \<Rightarrow> string \<Rightarrow> bool" where
  "isValidDomain pf s = (isDomainName s \<or> (ParseIP pf s \<and> IndexByte s CHR '':'' < 0))"

text \<open>
  \<^verbatim>\<open>parseAttr\<close> compares the key with a lower-case name byte by byte, each byte of the
  key taken \<^verbatim>\<open>| 0x20\<close>; the first byte selects the case of the \<^verbatim>\<open>switch\<close>, and
  \<open>keyIs\<close> is the comparison of the length and of the other bytes.  A key that fails
  it leaves the \<^verbatim>\<open>switch\<close>, and the attribute is kept in \<open>Unparsed\<close>.

  The three calls of \<^verbatim>\<open>fmt.Errorf\<close> at the head of \<^verbatim>\<open>parseAttr\<close> build an error that is
  not returned: they have no effect and no counterpart here.  \<^verbatim>\<open>key[0]\<close> is out of
  range for an empty key, and so is the slice \<^verbatim>\<open>val[1:]\<close> for an empty value.
\<close>

definition fold20 :: "char \<Rightarrow> nat" where
  "fold20 c = or (byte c) 32"

definition keyIs :: "string \<Rightarrow> string \<Rightarrow> bool" where
  "keyIs key name =
     (length key = length name \<and> list_all2 (\<lambda>k n. fold20 k = byte n) (tl key) (tl name))"

definition RFC1123 :: string where
  "RFC1123 = ''Mon, 02 Jan 2006 15:04:05 MST''"

definition parseAttr ::
  "codecLib \<Rightarrow> platform \<Rightarrow> Cookie \<Rightarrow> string \<Rightarrow> (parseError + Cookie) outcome" where
  "parseAttr lib pf c raw =
     (let eq = IndexByte raw CHR ''='';
          key = (if eq \<ge> 0 then take (nat eq) raw else raw);
          val = (if eq \<ge> 0 then fst (parseValue (drop (nat (eq + 1)) raw)) else []);
          unparsed = Returns (Inr (c \<lparr> cUnparsed := cUnparsed c @ [raw] \<rparr>))
      in if key = [] then Panics
         else if fold20 (key ! 0) = 100 then
           (if \<not> keyIs key ''domain'' then unparsed
            else if length val < 1 then Panics
            else if \<not> isValidDomain pf (drop 1 val) then Returns (Inl (errInvalidDomainValue val))
            else Returns (Inr (c \<lparr> cDomain := val \<rparr>)))
         else if fold20 (key ! 0) = 101 then
           (if \<not> keyIs key ''expires'' then unparsed
            else
              (case ParseTime lib RFC1123 val of
                 Some expires \<Rightarrow> Returns (Inr (c \<lparr> cExpires := expires \<rparr>))
               | None \<Rightarrow>
                   (case ParseTime lib ''Mon, 02-Jan-2006 15:04:05 MST'' val of
                      Some expires \<Rightarrow> Returns (Inr (c \<lparr> cExpires := expires \<rparr>))
                    | None \<Rightarrow> Returns (Inl (errInvalidExpiresValue val)))))
         else if fold20 (key ! 0) = 104 then
           (if \<not> keyIs key ''httponly'' then unparsed
            else Returns (Inr (c \<lparr> cHttpOnly := True \<rparr>)))
         else if fold20 (key ! 0) = 109 then
           (if \<not> (keyIs key ''max-age'' \<and> key ! 3 = CHR ''-'') then unparsed
            else
              (case Atoi lib val of
                 None \<Rightarrow> Returns (Inl (errInvalidMaxAgeValue val))
               | Some n \<Rightarrow>
                   if n < 0 then Returns (Inl (errInvalidMaxAgeValue val))
                   else if n = 0 then Returns (Inr (c \<lparr> cMaxAge := - 1 \<rparr>))
                   else Returns (Inr (c \<lparr> cMaxAge := n \<rparr>))))
         else if fold20 (key ! 0) = 112 then
           (if \<not> keyIs key ''path'' then unparsed
            else Returns (Inr (c \<lparr> cPath := val \<rparr>)))
         else if fold20 (key ! 0) = 115 then
           (if \<not> keyIs key ''secure'' then unparsed
            else Returns (Inr (c \<lparr> cSecure := True \<rparr>)))
         else unparsed)"

text \<open>
  The loop of \<^verbatim>\<open>Parse\<close> over the attributes, on \<open>raw\<close>, \<open>s\<close> and the cookie.
\<close>

function parseAttrs ::
  "codecLib \<Rightarrow> platform \<Rightarrow> Cookie \<Rightarrow> string \<Rightarrow> int \<Rightarrow> (parseError + Cookie) outcome" where
  "parseAttrs lib pf c raw s =
     (if 0 \<le> s \<and> s < int (length raw) then
        (let raw1 = drop (nat (s + 1)) raw;
             s1 = IndexByte raw1 CHR '';'';
             part = (if s1 < 0 then trim raw1 else trim (take (nat s1) raw1))
         in case parseAttr lib pf c part of
              Returns (Inr c1) \<Rightarrow> parseAttrs lib pf c1 raw1 s1
            | Returns (Inl err) \<Rightarrow> Returns (Inl err)
            | Panics \<Rightarrow> Panics
            | Diverges \<Rightarrow> Diverges)
      else Returns (Inr c))"
  by pat_completeness auto
termination
  by (relation "measure (\<lambda>(lib, pf, c, raw, s). length raw)") auto

definition Parse :: "codecLib \<Rightarrow> platform \<Rightarrow> string \<Rightarrow> (parseError + Cookie) outcome" where
  "Parse lib pf raw =
     (let s0 = IndexByte raw CHR '';'';
          s = (if s0 < 0 then int (length raw) else s0);
          part = trim (take (nat s) raw);
          eq = IndexByte part CHR ''=''
      in if eq < 0 then Returns (Inl errMissingValue)
         else
           (case parseName (take (nat eq) part) of
              (name, ok1) \<Rightarrow>
                if \<not> ok1 then Returns (Inl errInvalidName)
                else
                  (case parseValue (drop (nat (eq + 1)) part) of
                     (value, ok2) \<Rightarrow>
                       if \<not> ok2 then Returns (Inl errInvalidValue)
                       else parseAttrs lib pf (cookie name value [] []) raw s)))"

section \<open>Reachable jars\<close>





section \<open>A platform and a public suffix list for examples\<close>

text \<open>
  The examples below run the jar on one platform: \<open>ParseIP\<close> accepts the dotted
  decimal form of an IPv4 address, \<open>SplitHostPort\<close> cuts at the last colon and removes
  the brackets of an IPv6 literal, \<open>ToLowerUnicode\<close> leaves its argument as it is and
  \<open>AddSeconds\<close> adds nanoseconds.  The public suffix list \<open>suffixCom\<close> knows the suffix
  \<^verbatim>\<open>com\<close> only.
\<close>

definition decimalField :: "string \<Rightarrow> bool" where
  "decimalField f =
     (f \<noteq> [] \<and> length f \<le> 3 \<and> list_all (\<lambda>c. 48 \<le> byte c \<and> byte c \<le> 57) f
      \<and> fold (\<lambda>c n. 10 * n + (byte c - 48)) f 0 \<le> 255)"

definition ipv4Literal :: "string \<Rightarrow> bool" where
  "ipv4Literal s =
     (let fields = Split s CHR ''.'' in length fields = 4 \<and> list_all decimalField fields)"

definition splitAtLastColon :: "string \<Rightarrow> string option" where
  "splitAtLastColon s =
     (let i = LastIndex s CHR '':'' in
      if i < 0 then None
      else
        (let h = take (nat i) s in
         if h \<noteq> [] \<and> hd h = CHR ''['' then
           (if last h = CHR '']'' then Some (butlast (tl h)) else None)
         else if CHR '':'' \<in> set h then None
         else Some h))"

definition examplePlatform :: platform where
  "examplePlatform =
     \<lparr> ParseIP = ipv4Literal, SplitHostPort = splitAtLastColon,
       ToLowerUnicode = (\<lambda>s. s), AddSeconds = (\<lambda>t n. t + n * 1000000000) \<rparr>"

definition suffixCom :: "string \<Rightarrow> string" where
  "suffixCom d = (if d = ''com'' \<or> hasDotSuffix d ''com'' then ''com'' else [])"

text \<open>A public suffix list that reports \<^verbatim>\<open>com\<close> for every name.\<close>

definition suffixAny :: "string \<Rightarrow> string" where
  "suffixAny d = ''com''"

text \<open>An entry for \<^verbatim>\<open>example.com\<close> with the path and the flag \<open>Secure\<close> given.\<close>

definition exampleEntry :: "string \<Rightarrow> bool \<Rightarrow> jarEntry" where
  "exampleEntry p secure =
     \<lparr> eRoot = ''example.com'', eKey = ''example.com;'' @ p @ '';a'', eCreated = 0,
       eExpires = 0, eHostOnly = True, eName = ''a'', eValue = ''b'',
       eDomain = ''example.com'', ePath = p, eSecure = secure, eHttpOnly = False \<rparr>"

text \<open>
  The entry and the jar of the scoping scenario: a cookie received from
  \<^verbatim>\<open>www.example.com\<close> with the domain attribute \<^verbatim>\<open>.example.com\<close>.
\<close>

definition scopedEntry :: "string \<Rightarrow> string \<Rightarrow> time \<Rightarrow> jarEntry" where
  "scopedEntry n v now =
     \<lparr> eRoot = ''example.com'', eKey = ''example.com;/;'' @ n, eCreated = now, eExpires = 0,
       eHostOnly = False, eName = n, eValue = v, eDomain = ''example.com'', ePath = ''/'',
       eSecure = False, eHttpOnly = False \<rparr>"

definition scopedJar :: "(string \<Rightarrow> string) \<Rightarrow> string \<Rightarrow> string \<Rightarrow> time \<Rightarrow> Jar" where
  "scopedJar f n v now =
     \<lparr> psl = Some f,
       ent = [''example.com'' \<mapsto> [''example.com;/;'' @ n \<mapsto> scopedEntry n v now]] \<rparr>"

text \<open>
  The entry that a cookie \<^verbatim>\<open>a=b\<close> without attributes yields on the host
  \<^verbatim>\<open>example.com\<close>, with the creation time and the expiry given.
\<close>

definition hostEntry :: "platform \<Rightarrow> PublicSuffixList \<Rightarrow> time \<Rightarrow> time \<Rightarrow> jarEntry" where
  "hostEntry pf p created expires =
     \<lparr> eRoot = domainRoot pf ''example.com'' p, eKey = ''example.com;/;a'',
       eCreated = created, eExpires = expires, eHostOnly = True, eName = ''a'', eValue = ''b'',
       eDomain = ''example.com'', ePath = ''/'', eSecure = False, eHttpOnly = False \<rparr>"



section \<open>Host canonicalization\<close>

lemma byte_colon: "byte c = 58 \<longleftrightarrow> c = CHR '':''"
proof
  assume "byte c = 58"
  then have "of_char c = (of_char CHR '':'' :: nat)"
    by (simp add: byte_def)
  then show "c = CHR '':''"
    by (simp only: of_char_eq_iff)
qed (simp add: byte_def)

lemma rangeFrom_ascii:
  "b < 128 \<Longrightarrow> rangeFrom i (b # bs) = (i, int b) # rangeFrom (Suc i) bs"
  by (simp add: decodeRune_def)

lemma hasPort_loop_no_colon:
  "isASCII s \<Longrightarrow> CHR '':'' \<notin> set s
    \<Longrightarrow> hasPort_loop addr (rangeFrom i (map byte s)) n rb = Returns (n, rb)"
proof (induction s arbitrary: i)
  case Nil
  then show ?case by simp
next
  case (Cons c s)
  from Cons.prems have c: "byte c < 128" "c \<noteq> CHR '':''" and s: "isASCII s" "CHR '':'' \<notin> set s"
    by (auto simp: isASCII_def)
  from rangeFrom_ascii [OF c(1)]
  have "rangeFrom i (map byte (c # s)) = (i, int (byte c)) # rangeFrom (Suc i) (map byte s)"
    by (simp only: list.map)
  moreover from c have "byte c \<noteq> 58"
    by (simp add: byte_colon)
  ultimately show ?case
    using Cons.IH [OF s] by simp
qed

lemma hasPort_no_colon: "isASCII s \<Longrightarrow> CHR '':'' \<notin> set s \<Longrightarrow> hasPort s = Returns False"
  by (simp add: hasPort_def rangeString_def hasPort_loop_no_colon)

lemma lowerByte_id: "\<not> (65 \<le> byte c \<and> byte c \<le> 90) \<Longrightarrow> lowerByte c = c"
  by (auto simp: lowerByte_def)

lemma ToLower_id:
  "isASCII s \<Longrightarrow> list_all (\<lambda>c. \<not> (65 \<le> byte c \<and> byte c \<le> 90)) s \<Longrightarrow> ToLower pf s = s"
  by (simp add: ToLower_def list_all_iff lowerByte_id map_idI)

lemma toASCII_ascii: "isASCII s \<Longrightarrow> toASCII s = Returns (Inr s)"
  by (simp add: toASCII_def)

lemma canonicalHost_id:
  assumes "isASCII host" and "list_all (\<lambda>c. \<not> (65 \<le> byte c \<and> byte c \<le> 90)) host"
    and "CHR '':'' \<notin> set host"
  shows "canonicalHost pf host = Returns (Inr host)"
  using assms by (simp add: canonicalHost_def ToLower_id hasPort_no_colon toASCII_ascii)

lemma canonicalHost_colon_first: "canonicalHost pf '':80'' = Panics"
  by code_simp

lemma canonicalHost_example_com: "canonicalHost pf ''example.com'' = Returns (Inr ''example.com'')"
  by code_simp

text \<open>
  C4.  The claim is that \<^verbatim>\<open>SetCookie\<close> and \<^verbatim>\<open>Cookies\<close> never panic, in particular for
  a host that begins with a colon.  For the host \<^verbatim>\<open>:80\<close> both panic: \<^verbatim>\<open>hasPort\<close> reads
  \<^verbatim>\<open>addr[i-1]\<close> with \<open>i = 0\<close>, whatever the jar, the cookie, the path and the time.
\<close>

theorem colon_host_panics:
  "SetCookie j pf ''http'' '':80'' path c now = Panics
   \<and> Cookies j pf ks ''http'' '':80'' path now = Panics"
  by (simp add: SetCookie_def Cookies_def canonicalHost_colon_first)

text \<open>
  C9.  A call of \<^verbatim>\<open>SetCookie\<close> that returns an error leaves the jar as it was, and
  with a scheme other than \<^verbatim>\<open>http\<close> and \<^verbatim>\<open>https\<close> the call returns \<open>errInvalidScheme\<close>
  and the unchanged jar whatever the host and the cookie are: neither is looked at.
\<close>

theorem SetCookie_error_keeps_jar:
  "(SetCookie j pf scheme host path c now = Returns (Some err, j1) \<longrightarrow> j1 = j)
   \<and> (scheme \<noteq> ''http'' \<and> scheme \<noteq> ''https''
        \<longrightarrow> SetCookie j pf scheme host path c now = Returns (Some errInvalidScheme, j))"
  by (auto simp: SetCookie_def split: outcome.splits sum.splits if_splits)

theorem SetCookie_error_keeps_jar_witness:
  "SetCookie (NewJar (Some suffixCom)) examplePlatform ''http'' ''example.com'' ''/''
       (cookie ''a'' ''b'' ''com'' []) 0
     = Returns (Some errIllegalDomain, NewJar (Some suffixCom))
   \<and> ''ftp'' \<noteq> ''http'' \<and> ''ftp'' \<noteq> ''https''
   \<and> SetCookie (NewJar None) examplePlatform ''ftp'' ''example.com'' ''/''
       (cookie ''a'' ''b'' [] []) 0
     = Returns (Some errInvalidScheme, NewJar None)"
proof -
  have "newEntry (cookie ''a'' ''b'' ''com'' []) examplePlatform ''example.com''
          (Some suffixCom) 0 = Inl errIllegalDomain"
    by code_simp
  then obtain j1 where
    "SetCookie (NewJar (Some suffixCom)) examplePlatform ''http'' ''example.com'' ''/''
       (cookie ''a'' ''b'' ''com'' []) 0 = Returns (Some errIllegalDomain, j1)"
    by (simp add: SetCookie_def canonicalHost_example_com NewJar_def)
  moreover from this have "j1 = NewJar (Some suffixCom)"
    using SetCookie_error_keeps_jar by blast
  ultimately show ?thesis
    using SetCookie_error_keeps_jar
      [of "NewJar None" examplePlatform "''ftp''" "''example.com''" "''/''"
          "cookie ''a'' ''b'' [] []" 0]
    by simp
qed

section \<open>Relevance of an entry for a request\<close>

lemma newEntry_path: "newEntry c pf host p now = Inr (e, rm) \<Longrightarrow> ePath e \<noteq> []"
  by (auto simp: newEntry_def Let_def split: sum.splits prod.splits if_splits)

lemma HasPrefix_longer: "HasPrefix path p \<Longrightarrow> path \<noteq> p \<Longrightarrow> length p < length path"
  by (auto simp: HasPrefix_def order_le_less)

text \<open>
  C7.  \<^verbatim>\<open>shouldSend\<close> returns false for a \<open>Secure\<close> entry when the scheme is not
  \<^verbatim>\<open>https\<close>; for a request path other than the entry's \<open>Path\<close> it returns false unless
  the request path has \<open>Path\<close> as a prefix and \<open>Path\<close> ends in a slash or the request
  path continues with a slash; and when the scheme and the domain admit the entry, the
  result is exactly this test on the path.  An entry with \<open>Path\<close> \<^verbatim>\<open>/foo\<close> is sent for
  \<^verbatim>\<open>/foo/bar\<close> and for \<^verbatim>\<open>/foo\<close>, not for \<^verbatim>\<open>/foobar\<close>.  The \<open>Path\<close> of an entry is never
  empty (\<open>newEntry_path\<close>).
\<close>

theorem shouldSend_scope:
  "(eSecure e \<and> scheme \<noteq> ''https'' \<longrightarrow> shouldSend e scheme host path = Returns False)
   \<and> (ePath e \<noteq> [] \<and> path \<noteq> ePath e \<and> \<not> pathMatch path (ePath e)
        \<longrightarrow> shouldSend e scheme host path = Returns False)
   \<and> (ePath e \<noteq> [] \<and> \<not> (eSecure e \<and> scheme \<noteq> ''https'')
        \<and> (eDomain e = host \<or> (\<not> eHostOnly e \<and> hasDotSuffix host (eDomain e)))
        \<longrightarrow> shouldSend e scheme host path
            = Returns (path = ePath e \<or> pathMatch path (ePath e)))
   \<and> (ePath e = ''/foo'' \<and> eDomain e = host \<and> \<not> eSecure e
        \<longrightarrow> shouldSend e scheme host ''/foo/bar'' = Returns True
            \<and> shouldSend e scheme host ''/foo'' = Returns True
            \<and> shouldSend e scheme host ''/foobar'' = Returns False)"
proof (intro conjI impI)
  assume "eSecure e \<and> scheme \<noteq> ''https''"
  then show "shouldSend e scheme host path = Returns False"
    by (simp add: shouldSend_def)
next
  assume "ePath e \<noteq> [] \<and> path \<noteq> ePath e \<and> \<not> pathMatch path (ePath e)"
  then show "shouldSend e scheme host path = Returns False"
    using HasPrefix_longer [of path "ePath e"]
    by (auto simp: shouldSend_def pathMatch_def)
next
  assume "ePath e \<noteq> [] \<and> \<not> (eSecure e \<and> scheme \<noteq> ''https'')
    \<and> (eDomain e = host \<or> (\<not> eHostOnly e \<and> hasDotSuffix host (eDomain e)))"
  then have ok: "ePath e \<noteq> []" "\<not> (eSecure e \<and> scheme \<noteq> ''https'')"
    "\<not> (eDomain e \<noteq> host \<and> (eHostOnly e \<or> \<not> hasDotSuffix host (eDomain e)))"
    by auto
  show "shouldSend e scheme host path = Returns (path = ePath e \<or> pathMatch path (ePath e))"
  proof (cases "path \<noteq> ePath e \<and> HasPrefix path (ePath e)")
    case True
    then have "\<not> length path \<le> length (ePath e)"
      using HasPrefix_longer [of path "ePath e"] by simp
    with True ok show ?thesis
      unfolding shouldSend_def pathMatch_def by (simp only: if_False if_True) auto
  next
    case False
    with ok show ?thesis
      unfolding shouldSend_def pathMatch_def by (simp only: if_False if_True) auto
  qed
next
  assume "ePath e = ''/foo'' \<and> eDomain e = host \<and> \<not> eSecure e"
  then show "shouldSend e scheme host ''/foo/bar'' = Returns True"
    by (simp add: shouldSend_def HasPrefix_def)
next
  assume "ePath e = ''/foo'' \<and> eDomain e = host \<and> \<not> eSecure e"
  then show "shouldSend e scheme host ''/foo'' = Returns True"
    by (simp add: shouldSend_def HasPrefix_def)
next
  assume "ePath e = ''/foo'' \<and> eDomain e = host \<and> \<not> eSecure e"
  then show "shouldSend e scheme host ''/foobar'' = Returns False"
    by (simp add: shouldSend_def HasPrefix_def)
qed

theorem shouldSend_scope_witness:
  "shouldSend (exampleEntry ''/foo'' True) ''http'' ''example.com'' ''/foo'' = Returns False
   \<and> shouldSend (exampleEntry ''/foo'' True) ''https'' ''example.com'' ''/foo'' = Returns True
   \<and> shouldSend (exampleEntry ''/foo'' False) ''http'' ''example.com'' ''/foo/bar'' = Returns True
   \<and> shouldSend (exampleEntry ''/foo'' False) ''http'' ''example.com'' ''/foo'' = Returns True
   \<and> shouldSend (exampleEntry ''/foo'' False) ''http'' ''example.com'' ''/foobar'' = Returns False
   \<and> shouldSend (exampleEntry ''/foo/'' False) ''http'' ''example.com'' ''/foo/bar'' = Returns True
   \<and> shouldSend (exampleEntry ''/foo'' False) ''http'' ''example.com'' ''/fo'' = Returns False"
  using shouldSend_scope [of "exampleEntry ''/foo'' True" "''http''" "''example.com''" "''/foo''"]
    shouldSend_scope [of "exampleEntry ''/foo'' True" "''https''" "''example.com''" "''/foo''"]
    shouldSend_scope [of "exampleEntry ''/foo'' False" "''http''" "''example.com''" "''/fo''"]
    shouldSend_scope [of "exampleEntry ''/foo/'' False" "''http''" "''example.com''" "''/foo/bar''"]
  by (simp add: exampleEntry_def pathMatch_def HasPrefix_def)

section \<open>Encoder vectors and pure ASCII hosts\<close>

lemma encode_empty: "encode [] [] = Returns (Inr ''xn--'')"
  by code_simp

lemma encode_u_umlaut: "encode [CHR 0xC3, CHR 0xBC] [] = Returns (Inr ''xn--tda'')"
  by code_simp

lemma encode_buecher:
  "encode (''b'' @ [CHR 0xC3, CHR 0xBC] @ ''cher'') [] = Returns (Inr ''xn--bcher-kva'')"
  by code_simp

lemma canonicalHost_already_ascii:
  "canonicalHost pf ''already-ascii.com'' = Returns (Inr ''already-ascii.com'')"
  by code_simp

lemma byte_lowerByte:
  "byte (lowerByte c) = (if 65 \<le> byte c \<and> byte c \<le> 90 then byte c + 32 else byte c)"
  by (simp add: lowerByte_def byte_def)

lemma isASCII_lower: "isASCII s \<Longrightarrow> isASCII (map lowerByte s)"
  by (auto simp: isASCII_def list_all_iff byte_lowerByte)

lemma lowerByte_colon: "lowerByte c = CHR '':'' \<longleftrightarrow> c = CHR '':''"
proof -
  have "byte (lowerByte c) = 58 \<longleftrightarrow> byte c = 58"
    by (auto simp: byte_lowerByte)
  then show ?thesis
    by (simp add: byte_colon)
qed

lemma hasPort_lower_no_colon:
  assumes "isASCII s" and "CHR '':'' \<notin> set s"
  shows "hasPort (map lowerByte s) = Returns False"
proof (rule hasPort_no_colon)
  show "isASCII (map lowerByte s)"
    using assms(1) by (rule isASCII_lower)
  show "CHR '':'' \<notin> set (map lowerByte s)"
  proof
    assume "CHR '':'' \<in> set (map lowerByte s)"
    then obtain x where "x \<in> set s" and "lowerByte x = CHR '':''"
      by auto
    with assms(2) show False
      by (simp add: lowerByte_colon)
  qed
qed

lemma canonicalHost_lower:
  "isASCII host \<Longrightarrow> hasPort (map lowerByte host) = Returns False
    \<Longrightarrow> canonicalHost pf host = Returns (Inr (map lowerByte host))"
  by (simp add: canonicalHost_def ToLower_def toASCII_ascii isASCII_lower)

lemma canonicalHost_no_port:
  assumes "isASCII host" and "list_all (\<lambda>c. \<not> (65 \<le> byte c \<and> byte c \<le> 90)) host"
    and "hasPort host = Returns False"
  shows "canonicalHost pf host = Returns (Inr host)"
  using assms by (simp add: canonicalHost_def ToLower_id toASCII_ascii)

text \<open>
  C8, as stated: canonicalization would be the identity on every host whose labels are
  pure ASCII.  Three hosts of pure ASCII labels show otherwise.  \<^verbatim>\<open>Example.com\<close> is
  canonicalized to \<^verbatim>\<open>example.com\<close>, since \<^verbatim>\<open>canonicalHost\<close> begins with
  \<^verbatim>\<open>strings.ToLower\<close>.  In \<^verbatim>\<open>example.com:80\<close> \<^verbatim>\<open>hasPort\<close> finds a port, and the result is
  the host that \<^verbatim>\<open>net.SplitHostPort\<close> returns, \<^verbatim>\<open>example.com\<close>.  On \<^verbatim>\<open>:80\<close> \<^verbatim>\<open>hasPort\<close>
  panics.
\<close>

theorem canonicalHost_changes_ascii_hosts:
  "list_all isASCII (Split ''Example.com'' CHR ''.'')
   \<and> canonicalHost examplePlatform ''Example.com'' = Returns (Inr ''example.com'')
   \<and> ''example.com'' \<noteq> ''Example.com''
   \<and> list_all isASCII (Split ''example.com:80'' CHR ''.'')
   \<and> hasPort ''example.com:80'' = Returns True
   \<and> canonicalHost examplePlatform ''example.com:80'' = Returns (Inr ''example.com'')
   \<and> ''example.com'' \<noteq> ''example.com:80''
   \<and> list_all isASCII (Split '':80'' CHR ''.'')
   \<and> hasPort '':80'' = Panics
   \<and> canonicalHost examplePlatform '':80'' = Panics"
  by code_simp

text \<open>
  C8, amended.  In UTF-8 the letter u with diaeresis is the two bytes \<open>0xC3 0xBC\<close>.
  The encoder maps the empty label to \<^verbatim>\<open>xn--\<close>, that letter to \<^verbatim>\<open>xn--tda\<close> and
  \<^verbatim>\<open>b\<close>, that letter, \<^verbatim>\<open>cher\<close> to \<^verbatim>\<open>xn--bcher-kva\<close>.  \<^verbatim>\<open>toASCII\<close> returns a pure ASCII
  name as it is.  On a pure ASCII host in which, once lower-cased, \<^verbatim>\<open>hasPort\<close> finds no
  port, \<^verbatim>\<open>canonicalHost\<close> returns the host with the letters \<^verbatim>\<open>A\<close> to \<^verbatim>\<open>Z\<close> lower-cased;
  every pure ASCII host without a colon is such a host.  So \<^verbatim>\<open>canonicalHost\<close> returns a
  pure ASCII host as it is when the host has no upper-case letter and \<^verbatim>\<open>hasPort\<close> finds
  no port in it, in particular when it has no colon; \<^verbatim>\<open>already-ascii.com\<close> is such a
  host.
\<close>

theorem encode_vectors_ascii_hosts:
  "encode [] [] = Returns (Inr ''xn--'')
   \<and> encode [CHR 0xC3, CHR 0xBC] [] = Returns (Inr ''xn--tda'')
   \<and> encode (''b'' @ [CHR 0xC3, CHR 0xBC] @ ''cher'') [] = Returns (Inr ''xn--bcher-kva'')
   \<and> (isASCII host \<longrightarrow> toASCII host = Returns (Inr host))
   \<and> (isASCII host \<and> list_all (\<lambda>c. \<not> (65 \<le> byte c \<and> byte c \<le> 90)) host
        \<and> CHR '':'' \<notin> set host
        \<longrightarrow> canonicalHost pf host = Returns (Inr host))
   \<and> canonicalHost pf ''already-ascii.com'' = Returns (Inr ''already-ascii.com'')
   \<and> (isASCII host \<and> hasPort (map lowerByte host) = Returns False
        \<longrightarrow> canonicalHost pf host = Returns (Inr (map lowerByte host)))
   \<and> (isASCII host \<and> CHR '':'' \<notin> set host
        \<longrightarrow> hasPort (map lowerByte host) = Returns False)
   \<and> (isASCII host \<and> list_all (\<lambda>c. \<not> (65 \<le> byte c \<and> byte c \<le> 90)) host
        \<and> hasPort host = Returns False
        \<longrightarrow> canonicalHost pf host = Returns (Inr host))"
  using encode_empty encode_u_umlaut encode_buecher canonicalHost_already_ascii
  by (simp add: toASCII_ascii canonicalHost_id canonicalHost_lower hasPort_lower_no_colon
      canonicalHost_no_port)

theorem encode_vectors_ascii_hosts_witness:
  "isASCII ''a1.example.org''
   \<and> list_all (\<lambda>c. \<not> (65 \<le> byte c \<and> byte c \<le> 90)) ''a1.example.org''
   \<and> CHR '':'' \<notin> set ''a1.example.org''
   \<and> toASCII ''a1.example.org'' = Returns (Inr ''a1.example.org'')
   \<and> canonicalHost examplePlatform ''a1.example.org'' = Returns (Inr ''a1.example.org'')
   \<and> isASCII ''A1.Example.org'' \<and> CHR '':'' \<notin> set ''A1.Example.org''
   \<and> map lowerByte ''A1.Example.org'' = ''a1.example.org''
   \<and> hasPort ''a1.example.org'' = Returns False
   \<and> canonicalHost examplePlatform ''A1.Example.org'' = Returns (Inr ''a1.example.org'')
   \<and> isASCII ''a:b:c'' \<and> hasPort ''a:b:c'' = Returns False
   \<and> canonicalHost examplePlatform ''a:b:c'' = Returns (Inr ''a:b:c'')"
proof -
  have a: "isASCII ''a1.example.org''" "isASCII ''A1.Example.org''" "isASCII ''a:b:c''"
    by code_simp+
  have u: "list_all (\<lambda>c. \<not> (65 \<le> byte c \<and> byte c \<le> 90)) ''a1.example.org''"
    "list_all (\<lambda>c. \<not> (65 \<le> byte c \<and> byte c \<le> 90)) ''a:b:c''"
    by code_simp+
  have l: "map lowerByte ''A1.Example.org'' = ''a1.example.org''"
    by code_simp
  have p: "hasPort ''a:b:c'' = Returns False"
    by code_simp
  have c: "CHR '':'' \<notin> set ''a1.example.org''" "CHR '':'' \<notin> set ''A1.Example.org''"
    by simp_all
  show ?thesis
    using a u l p c
      encode_vectors_ascii_hosts [of "''a1.example.org''" examplePlatform]
      encode_vectors_ascii_hosts [of "''A1.Example.org''" examplePlatform]
      encode_vectors_ascii_hosts [of "''a:b:c''" examplePlatform]
    by simp
qed

section \<open>Validation of the domain attribute\<close>

text \<open>
  C5, as stated: the result would be \<open>errIllegalDomain\<close>, or a host-only cookie, for
  every host and every non-empty attribute whose normalized domain the list reports as
  no dot-suffix extension of a non-empty suffix.  \<^verbatim>\<open>validateDomain\<close> returns before it
  consults the list when the host is an IP address, with \<open>errNoHostname\<close>, and when the
  attribute without its leading dot is empty or begins or ends with a dot, with
  \<open>errMalformedDomain\<close>: so for the host \<^verbatim>\<open>1.2.3.4\<close> with the attribute \<^verbatim>\<open>com\<close>, and for
  the attributes \<^verbatim>\<open>com.\<close>, \<^verbatim>\<open>.\<close> and \<^verbatim>\<open>..uk\<close> on the host \<^verbatim>\<open>example.com\<close> with a list
  that reports \<^verbatim>\<open>com\<close> for every name.
\<close>

theorem validateDomain_earlier_errors:
  "''com'' \<noteq> [] \<and> suffixCom ''com'' \<noteq> [] \<and> \<not> hasDotSuffix ''com'' (suffixCom ''com'')
   \<and> ''1.2.3.4'' \<noteq> ''com''
   \<and> validateDomain examplePlatform ''1.2.3.4'' ''com'' (Some suffixCom) = Inl errNoHostname
   \<and> ToLower examplePlatform ''com.'' = ''com.''
   \<and> suffixAny ''com.'' \<noteq> [] \<and> \<not> hasDotSuffix ''com.'' (suffixAny ''com.'')
   \<and> ''example.com'' \<noteq> ''com.''
   \<and> validateDomain examplePlatform ''example.com'' ''com.'' (Some suffixAny)
       = Inl errMalformedDomain
   \<and> ToLower examplePlatform [] = []
   \<and> suffixAny [] \<noteq> [] \<and> \<not> hasDotSuffix [] (suffixAny [])
   \<and> validateDomain examplePlatform ''example.com'' ''.'' (Some suffixAny)
       = Inl errMalformedDomain
   \<and> ToLower examplePlatform ''.uk'' = ''.uk''
   \<and> suffixAny ''.uk'' \<noteq> [] \<and> \<not> hasDotSuffix ''.uk'' (suffixAny ''.uk'')
   \<and> validateDomain examplePlatform ''example.com'' ''..uk'' (Some suffixAny)
       = Inl errMalformedDomain"
  by code_simp

text \<open>
  C5, amended.  For a host that is no IP address and a non-empty attribute that, without
  its leading dot, is not empty and neither begins nor ends with a dot: when the list
  reports, for the lower-cased domain \<open>d\<close>, a non-empty suffix of which \<open>d\<close> is no
  dot-suffix extension, the result is \<open>errIllegalDomain\<close>, unless the host is \<open>d\<close>: then
  the cookie is a host-only cookie of that host.  The attribute \<^verbatim>\<open>com\<close> on the host
  \<^verbatim>\<open>example.com\<close>, which is no IP address, with the suffix \<^verbatim>\<open>com\<close> reported for \<^verbatim>\<open>com\<close>,
  is refused with \<open>errIllegalDomain\<close>.  With a non-empty attribute, a host that is an IP
  address is refused with \<open>errNoHostname\<close>, and on any other host an attribute that,
  without its leading dot, is empty or begins or ends with a dot is refused with
  \<open>errMalformedDomain\<close>, with or without a list and whatever it reports.
\<close>

theorem validateDomain_public_suffix:
  "(domain \<noteq> [] \<and> \<not> isIP pf host
      \<and> d1 = (if hd domain = CHR ''.'' then tl domain else domain)
      \<and> d1 \<noteq> [] \<and> hd d1 \<noteq> CHR ''.'' \<and> last d1 \<noteq> CHR ''.''
      \<and> d = ToLower pf d1
      \<and> f d \<noteq> [] \<and> \<not> hasDotSuffix d (f d)
     \<longrightarrow> validateDomain pf host domain (Some f)
         = (if host = d then Inr (host, True) else Inl errIllegalDomain))
   \<and> (\<not> isIP pf ''example.com'' \<and> f ''com'' = ''com''
        \<longrightarrow> validateDomain pf ''example.com'' ''com'' (Some f) = Inl errIllegalDomain)
   \<and> (domain \<noteq> [] \<and> isIP pf host \<longrightarrow> validateDomain pf host domain p = Inl errNoHostname)
   \<and> (domain \<noteq> [] \<and> \<not> isIP pf host
        \<and> d1 = (if hd domain = CHR ''.'' then tl domain else domain)
        \<and> (d1 = [] \<or> hd d1 = CHR ''.'' \<or> last d1 = CHR ''.'')
        \<longrightarrow> validateDomain pf host domain p = Inl errMalformedDomain)"
proof (intro conjI impI)
  assume "domain \<noteq> [] \<and> \<not> isIP pf host
      \<and> d1 = (if hd domain = CHR ''.'' then tl domain else domain)
      \<and> d1 \<noteq> [] \<and> hd d1 \<noteq> CHR ''.'' \<and> last d1 \<noteq> CHR ''.''
      \<and> d = ToLower pf d1
      \<and> f d \<noteq> [] \<and> \<not> hasDotSuffix d (f d)"
  then have pre: "domain \<noteq> []" "\<not> isIP pf host" "d1 \<noteq> []" "hd d1 \<noteq> CHR ''.''"
      "last d1 \<noteq> CHR ''.''" "f d \<noteq> []" "\<not> hasDotSuffix d (f d)"
    and strip: "(if hd domain = CHR ''.'' then tl domain else domain) = d1"
    and lower: "ToLower pf d1 = d"
    by blast+
  show "validateDomain pf host domain (Some f)
      = (if host = d then Inr (host, True) else Inl errIllegalDomain)"
    unfolding validateDomain_def Let_def strip lower
    using pre by simp
next
  have lower: "ToLower pf ''com'' = ''com''"
    by code_simp
  assume "\<not> isIP pf ''example.com'' \<and> f ''com'' = ''com''"
  then show "validateDomain pf ''example.com'' ''com'' (Some f) = Inl errIllegalDomain"
    by (simp add: validateDomain_def lower hasDotSuffix_def)
next
  assume "domain \<noteq> [] \<and> isIP pf host"
  then show "validateDomain pf host domain p = Inl errNoHostname"
    by (simp add: validateDomain_def)
next
  assume "domain \<noteq> [] \<and> \<not> isIP pf host
      \<and> d1 = (if hd domain = CHR ''.'' then tl domain else domain)
      \<and> (d1 = [] \<or> hd d1 = CHR ''.'' \<or> last d1 = CHR ''.'')"
  then have pre: "domain \<noteq> []" "\<not> isIP pf host"
    and strip: "(if hd domain = CHR ''.'' then tl domain else domain) = d1"
    and bad: "d1 = [] \<or> hd d1 = CHR ''.'' \<or> last d1 = CHR ''.''"
    by blast+
  show "validateDomain pf host domain p = Inl errMalformedDomain"
    unfolding validateDomain_def Let_def strip
    using pre bad by simp
qed

theorem validateDomain_public_suffix_witness:
  "\<not> isIP examplePlatform ''example.com'' \<and> suffixCom ''com'' = ''com''
   \<and> \<not> hasDotSuffix ''com'' (suffixCom ''com'')
   \<and> validateDomain examplePlatform ''example.com'' ''com'' (Some suffixCom)
       = Inl errIllegalDomain
   \<and> \<not> isIP examplePlatform ''com'' \<and> ToLower examplePlatform ''COM'' = ''com''
   \<and> validateDomain examplePlatform ''com'' ''.COM'' (Some suffixCom) = Inr (''com'', True)
   \<and> validateDomain examplePlatform ''a.com'' ''.COM'' (Some suffixCom)
       = Inl errIllegalDomain
   \<and> isIP examplePlatform ''1.2.3.4''
   \<and> validateDomain examplePlatform ''1.2.3.4'' ''1.2.3.4'' None = Inl errNoHostname
   \<and> validateDomain examplePlatform ''example.com'' ''com.'' (Some suffixCom)
       = Inl errMalformedDomain"
proof -
  have ip: "\<not> isIP examplePlatform ''example.com''" "\<not> isIP examplePlatform ''com''"
    "\<not> isIP examplePlatform ''a.com''" "isIP examplePlatform ''1.2.3.4''"
    by code_simp+
  have low: "ToLower examplePlatform ''COM'' = ''com''"
    by code_simp
  have suf: "suffixCom ''com'' = ''com''" "\<not> hasDotSuffix ''com'' (suffixCom ''com'')"
    by code_simp+
  show ?thesis
    using ip low suf
      validateDomain_public_suffix [of "''com''" examplePlatform "''example.com''" "''com''"
        "''com''" suffixCom]
      validateDomain_public_suffix [of "''.COM''" examplePlatform "''com''" "''COM''"
        "''com''" suffixCom]
      validateDomain_public_suffix [of "''.COM''" examplePlatform "''a.com''" "''COM''"
        "''com''" suffixCom]
      validateDomain_public_suffix [of "''1.2.3.4''" examplePlatform "''1.2.3.4''" _ _ _ None]
      validateDomain_public_suffix [of "''com.''" examplePlatform "''example.com''" "''com.''"
        _ _ "Some suffixCom"]
    by simp
qed

section \<open>Scenarios on a jar\<close>

lemma Cookies_loop_empty:
  "Cookies_loop ks Map.empty scheme host path now cs = Returns (Map.empty, cs)"
  by (induction ks) simp_all

lemma canonicalHost_www:
  "canonicalHost pf ''www.example.com'' = Returns (Inr ''www.example.com'')"
  by code_simp

lemma canonicalHost_foo:
  "canonicalHost pf ''foo.example.com'' = Returns (Inr ''foo.example.com'')"
  by code_simp

lemma canonicalHost_notexample:
  "canonicalHost pf ''notexample.com'' = Returns (Inr ''notexample.com'')"
  by code_simp

lemma ToLower_example_com: "ToLower pf ''example.com'' = ''example.com''"
  by code_simp

lemma scoped_newEntry:
  assumes "\<not> isIP pf ''www.example.com''"
    and "f ''example.com'' = ''com''" and "f ''www.example.com'' = ''com''"
  shows "newEntry (cookie n v ''.example.com'' []) pf ''www.example.com'' (Some f) now
      = Inr (scopedEntry n v now, False)"
proof -
  have "validateDomain pf ''www.example.com'' ''.example.com'' (Some f)
      = Inr (''example.com'', False)"
    using assms by (simp add: validateDomain_def ToLower_example_com hasDotSuffix_def)
  moreover have "domainRoot pf ''www.example.com'' (Some f) = ''example.com''"
    using assms by (simp add: domainRoot_def LastIndex_def)
  ultimately show ?thesis
    by (simp add: newEntry_def cookie_def IsZero_def scopedEntry_def)
qed

lemma scoped_SetCookie:
  assumes "\<not> isIP pf ''www.example.com''"
    and "f ''example.com'' = ''com''" and "f ''www.example.com'' = ''com''"
    and "scheme = ''http'' \<or> scheme = ''https''"
  shows "SetCookie (NewJar (Some f)) pf scheme ''www.example.com'' path
        (cookie n v ''.example.com'' []) now = Returns (None, scopedJar f n v now)"
  using assms(4)
  by (auto simp: SetCookie_def canonicalHost_www scoped_newEntry [OF assms(1-3)] set_entry_def
      NewJar_def scopedJar_def scopedEntry_def)

text \<open>
  C6.  With a public suffix list that reports \<^verbatim>\<open>com\<close> for the four names involved, and
  hosts that are no IP addresses: \<^verbatim>\<open>SetCookie\<close>, with either scheme, on the host \<^verbatim>\<open>www.example.com\<close> with the
  domain attribute \<^verbatim>\<open>.example.com\<close> turns the new jar into the jar whose only bucket has
  the root \<^verbatim>\<open>example.com\<close> and holds one entry with \<open>Domain\<close> \<^verbatim>\<open>example.com\<close> and
  \<open>HostOnly\<close> false; \<^verbatim>\<open>Cookies\<close> for \<^verbatim>\<open>https\<close>, \<^verbatim>\<open>foo.example.com\<close> and \<^verbatim>\<open>/\<close> then returns
  that cookie, and for \<^verbatim>\<open>notexample.com\<close> it returns no cookie.
\<close>

theorem domain_cookie_scoping:
  assumes "\<not> isIP pf ''www.example.com''" and "\<not> isIP pf ''foo.example.com''"
    and "\<not> isIP pf ''notexample.com''"
    and "f ''example.com'' = ''com''" and "f ''www.example.com'' = ''com''"
    and "f ''foo.example.com'' = ''com''" and "f ''notexample.com'' = ''com''"
    and "scheme = ''http'' \<or> scheme = ''https''"
  shows "SetCookie (NewJar (Some f)) pf scheme ''www.example.com'' path
           (cookie n v ''.example.com'' []) now
         = Returns (None, scopedJar f n v now)
       \<and> ent (scopedJar f n v now) ''example.com''
         = Some [''example.com;/;'' @ n \<mapsto> scopedEntry n v now]
       \<and> eDomain (scopedEntry n v now) = ''example.com''
       \<and> eHostOnly (scopedEntry n v now) = False
       \<and> Cookies (scopedJar f n v now) pf [''example.com;/;'' @ n] ''https''
           ''foo.example.com'' ''/'' now
         = Returns (Inr [cookie n v [] []], scopedJar f n v now)
       \<and> Cookies (scopedJar f n v now) pf ks ''https'' ''notexample.com'' ''/'' now
         = Returns (Inr [], scopedJar f n v now)"
proof -
  have r2: "domainRoot pf ''foo.example.com'' (Some f) = ''example.com''"
    using assms by (simp add: domainRoot_def LastIndex_def)
  have r3: "domainRoot pf ''notexample.com'' (Some f) = ''notexample.com''"
    using assms by (simp add: domainRoot_def LastIndex_def)
  have send: "shouldSend (scopedEntry n v now) ''https'' ''foo.example.com'' ''/'' = Returns True"
    by (simp add: shouldSend_def scopedEntry_def hasDotSuffix_def)
  have "Cookies (scopedJar f n v now) pf [''example.com;/;'' @ n] ''https''
      ''foo.example.com'' ''/'' now = Returns (Inr [cookie n v [] []], scopedJar f n v now)"
    by (simp add: Cookies_def canonicalHost_foo r2 scopedJar_def send expired_def IsZero_def
        cookieOf_def cookie_def) (simp add: scopedEntry_def)
  moreover have "Cookies (scopedJar f n v now) pf ks ''https'' ''notexample.com'' ''/'' now
      = Returns (Inr [], scopedJar f n v now)"
    by (simp add: Cookies_def canonicalHost_notexample r3 scopedJar_def Cookies_loop_empty)
  ultimately show ?thesis
    using scoped_SetCookie [OF assms(1,4,5,8), of path n v now]
    by (simp add: scopedJar_def scopedEntry_def)
qed

lemma example_hosts:
  "\<not> isIP examplePlatform ''www.example.com''" "\<not> isIP examplePlatform ''foo.example.com''"
  "\<not> isIP examplePlatform ''notexample.com''" "\<not> isIP examplePlatform ''a.com''"
  by code_simp+

lemma example_suffixes:
  "suffixCom ''example.com'' = ''com''" "suffixCom ''www.example.com'' = ''com''"
  "suffixCom ''foo.example.com'' = ''com''" "suffixCom ''notexample.com'' = ''com''"
  by code_simp+

theorem domain_cookie_scoping_witness:
  "\<not> isIP examplePlatform ''www.example.com''
   \<and> suffixCom ''www.example.com'' = ''com''
   \<and> SetCookie (NewJar (Some suffixCom)) examplePlatform ''http'' ''www.example.com'' ''/''
       (cookie ''sid'' ''1'' ''.example.com'' []) 7
     = Returns (None, scopedJar suffixCom ''sid'' ''1'' 7)
   \<and> Cookies (scopedJar suffixCom ''sid'' ''1'' 7) examplePlatform [''example.com;/;sid'']
       ''https'' ''foo.example.com'' ''/'' 7
     = Returns (Inr [cookie ''sid'' ''1'' [] []], scopedJar suffixCom ''sid'' ''1'' 7)
   \<and> Cookies (scopedJar suffixCom ''sid'' ''1'' 7) examplePlatform [] ''https''
       ''notexample.com'' ''/'' 7
     = Returns (Inr [], scopedJar suffixCom ''sid'' ''1'' 7)"
  using domain_cookie_scoping [of examplePlatform suffixCom "''http''" "''/''" "''sid''"
      "''1''" 7 "[]", OF example_hosts(1-3) example_suffixes]
    example_hosts(1) example_suffixes(2)
  by simp

lemma newEntry_expiring:
  "newEntry (cookie ''a'' ''b'' [] [] \<lparr> cExpires := 10 \<rparr>) pf ''example.com'' p 5
     = Inr (hostEntry pf p 5 10, False)"
  by (simp add: newEntry_def validateDomain_def cookie_def hostEntry_def IsZero_def After_def)

lemma newEntry_session:
  "newEntry (cookie ''a'' ''b'' [] []) pf ''example.com'' p 5 = Inr (hostEntry pf p 5 0, False)"
  by (simp add: newEntry_def validateDomain_def cookie_def hostEntry_def IsZero_def)

lemma newEntry_delete:
  "newEntry (cookie ''a'' ''b'' [] [] \<lparr> cMaxAge := - 1 \<rparr>) pf ''example.com'' p 6
     = Inr (\<lparr> eRoot = [], eKey = [], eCreated = 6, eExpires = 0, eHostOnly = True,
              eName = ''a'', eValue = ''b'', eDomain = ''example.com'', ePath = ''/'',
              eSecure = False, eHttpOnly = False \<rparr>, True)"
  by (simp add: newEntry_def validateDomain_def cookie_def)

text \<open>
  After a call of \<^verbatim>\<open>Cookies\<close> that reaches the bucket of the host, the jar holds no empty
  bucket under that root, and an entry that the loop visits while it is in the bucket
  and expired is no longer in the bucket afterwards when it is stored under its own key.
\<close>

lemma Cookies_drops_empty_bucket:
  assumes "Cookies j pf ks scheme host path now = Returns (Inr cs, j1)"
    and "canonicalHost pf host = Returns (Inr h)"
  shows "ent j1 (domainRoot pf h (psl j)) \<noteq> Some Map.empty"
  using assms
  by (auto simp: Cookies_def Let_def split: if_splits outcome.splits prod.splits)

lemma Cookies_loop_keeps_deleted:
  "Cookies_loop ks b scheme host path now cs = Returns (b1, cs1) \<Longrightarrow> b key = None
    \<Longrightarrow> b1 key = None"
proof (induction ks arbitrary: b cs)
  case Nil
  then show ?case by simp
next
  case (Cons k ks)
  show ?case
  proof (cases "b k")
    case None
    with Cons show ?thesis by simp
  next
    case (Some x)
    with Cons.prems(1) obtain send where
      "Cookies_loop ks
          (if expired x now then b(eDomain x @ '';'' @ ePath x @ '';'' @ eName x := None) else b)
          scheme host path now (if send then cs @ [cookieOf x] else cs) = Returns (b1, cs1)"
      by (auto simp: Let_def split: outcome.splits)
    from Cons.IH [OF this] Cons.prems(2) show ?thesis
      by simp
  qed
qed

lemma Cookies_loop_evicts:
  assumes "Cookies_loop ks b scheme host path now cs = Returns (b1, cs1)"
    and "k \<in> set ks" and "b k = Some x" and "expired x now"
    and "k = eDomain x @ '';'' @ ePath x @ '';'' @ eName x"
  shows "b1 k = None"
  using assms
proof (induction ks arbitrary: b cs)
  case Nil
  then show ?case by simp
next
  case (Cons k' ks)
  show ?case
  proof (cases "b k'")
    case None
    with Cons.prems have l: "Cookies_loop ks b scheme host path now cs = Returns (b1, cs1)"
      and i: "k \<in> set ks"
      by auto
    from Cons.IH [OF l i Cons.prems(3-5)] show ?thesis .
  next
    case (Some y)
    let ?b = "if expired y now then b(eDomain y @ '';'' @ ePath y @ '';'' @ eName y := None) else b"
    from Some Cons.prems(1) obtain send where
      loop: "Cookies_loop ks ?b scheme host path now (if send then cs @ [cookieOf y] else cs)
          = Returns (b1, cs1)"
      by (auto simp: Let_def split: outcome.splits)
    show ?thesis
    proof (cases "?b k")
      case None
      from Cookies_loop_keeps_deleted [OF loop None] show ?thesis .
    next
      case (Some z)
      with Cons.prems(3) have z: "?b k = Some x"
        by (auto split: if_splits)
      from z \<open>b k' = Some y\<close> Cons.prems(2-5) have i: "k \<in> set ks"
        by (auto split: if_splits)
      from Cons.IH [OF loop i z Cons.prems(4,5)] show ?thesis .
    qed
  qed
qed

text \<open>
  C1.  The claim is that \<^verbatim>\<open>Cookies\<close> never returns an entry that has expired.  A cookie
  \<^verbatim>\<open>a=b\<close> that expires at time 10 is stored at time 5 for \<^verbatim>\<open>example.com\<close>; at time 20
  \<^verbatim>\<open>Cookies\<close> deletes the entry, and its bucket with it, and still returns the cookie:
  the deletion is not followed by a \<^verbatim>\<open>continue\<close>, so the test \<^verbatim>\<open>shouldSend\<close> and the
  \<^verbatim>\<open>append\<close> run for the expired entry too.  This holds for every platform and every
  public suffix list.
\<close>

theorem Cookies_returns_expired:
  "SetCookie (NewJar p) pf ''http'' ''example.com'' ''/''
       (cookie ''a'' ''b'' [] [] \<lparr> cExpires := 10 \<rparr>) 5
     = Returns (None, set_entry (NewJar p) (hostEntry pf p 5 10))
   \<and> expired (hostEntry pf p 5 10) 20
   \<and> Cookies (set_entry (NewJar p) (hostEntry pf p 5 10)) pf [''example.com;/;a'']
       ''http'' ''example.com'' ''/'' 20
     = Returns (Inr [cookie ''a'' ''b'' [] []], NewJar p)"
proof (intro conjI)
  show "SetCookie (NewJar p) pf ''http'' ''example.com'' ''/''
       (cookie ''a'' ''b'' [] [] \<lparr> cExpires := 10 \<rparr>) 5
     = Returns (None, set_entry (NewJar p) (hostEntry pf p 5 10))"
    by (simp add: SetCookie_def canonicalHost_example_com newEntry_expiring NewJar_def)
  show "expired (hostEntry pf p 5 10) 20"
    by (simp add: expired_def hostEntry_def IsZero_def After_def)
  show "Cookies (set_entry (NewJar p) (hostEntry pf p 5 10)) pf [''example.com;/;a'']
       ''http'' ''example.com'' ''/'' 20
     = Returns (Inr [cookie ''a'' ''b'' [] []], NewJar p)"
    by (simp add: Cookies_def canonicalHost_example_com set_entry_def NewJar_def hostEntry_def
        expired_def IsZero_def After_def shouldSend_def cookieOf_def cookie_def)
qed

text \<open>
  C2.  The claim is that a \<^verbatim>\<open>SetCookie\<close> whose disposition is delete removes the entry
  with the same key.  A session cookie \<^verbatim>\<open>a=b\<close> is stored for \<^verbatim>\<open>example.com\<close>; a second
  \<^verbatim>\<open>SetCookie\<close> for the same host and name with \<open>MaxAge = -1\<close> returns no error and
  leaves the jar as it was, and \<^verbatim>\<open>Cookies\<close> still returns the cookie: \<^verbatim>\<open>newEntry\<close> returns
  before it sets \<open>Root\<close> and \<open>Key\<close>, so that \<^verbatim>\<open>remove\<close> looks for the key \<^verbatim>\<open>""\<close> in the
  bucket \<^verbatim>\<open>""\<close>.  This holds for every platform and every public suffix list.
\<close>

theorem SetCookie_delete_keeps_entry:
  "SetCookie (NewJar p) pf ''http'' ''example.com'' ''/'' (cookie ''a'' ''b'' [] []) 5
     = Returns (None, set_entry (NewJar p) (hostEntry pf p 5 0))
   \<and> SetCookie (set_entry (NewJar p) (hostEntry pf p 5 0)) pf ''http'' ''example.com'' ''/''
       (cookie ''a'' ''b'' [] [] \<lparr> cMaxAge := - 1 \<rparr>) 6
     = Returns (None, set_entry (NewJar p) (hostEntry pf p 5 0))
   \<and> Cookies (set_entry (NewJar p) (hostEntry pf p 5 0)) pf [''example.com;/;a'']
       ''http'' ''example.com'' ''/'' 7
     = Returns (Inr [cookie ''a'' ''b'' [] []], set_entry (NewJar p) (hostEntry pf p 5 0))"
proof (intro conjI)
  show "SetCookie (NewJar p) pf ''http'' ''example.com'' ''/'' (cookie ''a'' ''b'' [] []) 5
     = Returns (None, set_entry (NewJar p) (hostEntry pf p 5 0))"
    by (simp add: SetCookie_def canonicalHost_example_com newEntry_session NewJar_def)
  show "SetCookie (set_entry (NewJar p) (hostEntry pf p 5 0)) pf ''http'' ''example.com'' ''/''
       (cookie ''a'' ''b'' [] [] \<lparr> cMaxAge := - 1 \<rparr>) 6
     = Returns (None, set_entry (NewJar p) (hostEntry pf p 5 0))"
    by (simp add: SetCookie_def canonicalHost_example_com newEntry_delete set_entry_def
        NewJar_def remove_entry_def hostEntry_def)
  show "Cookies (set_entry (NewJar p) (hostEntry pf p 5 0)) pf [''example.com;/;a'']
       ''http'' ''example.com'' ''/'' 7
     = Returns (Inr [cookie ''a'' ''b'' [] []], set_entry (NewJar p) (hostEntry pf p 5 0))"
    by (simp add: Cookies_def canonicalHost_example_com set_entry_def NewJar_def hostEntry_def
        expired_def IsZero_def shouldSend_def cookieOf_def cookie_def Let_def)
qed

section \<open>Host and domain of the stored entries\<close>












lemma SetCookie_stores_or_removes:
  assumes "SetCookie j pf scheme host path c now = Returns (None, j1)"
  shows "\<exists>h e rm. canonicalHost pf host = Returns (Inr h)
           \<and> newEntry c pf h (psl j) now = Inr (e, rm)"
  using assms by (auto simp: SetCookie_def split: if_splits outcome.splits sum.splits)







section \<open>Parsing a cookie\<close>

text \<open>
  C10.  The claim is that \<^verbatim>\<open>Parse\<close> never panics, in particular on \<^verbatim>\<open>a=b; Domain=\<close>.
  On this input \<^verbatim>\<open>parseValue\<close> rejects the empty value, \<^verbatim>\<open>parseAttr\<close> builds an error
  that it does not return, and the slice \<^verbatim>\<open>val[1:]\<close> of the empty \<open>val\<close> panics.  On
  \<^verbatim>\<open>a=b;\<close> the attribute is empty, the error for the empty key is not returned either,
  and \<^verbatim>\<open>key[0]\<close> panics.  Both hold whatever the library functions compute.
\<close>

theorem Parse_panics:
  "Parse lib pf ''a=b; Domain='' = Panics \<and> Parse lib pf ''a=b;'' = Panics"
  by code_simp

end
